theory Spec2Isabelle
  imports Complex_Main
begin

section \<open>Escape-profile similarity for multidimensional scaling\<close>

text \<open>
  A shallow embedding of the notebook \<^verbatim>\<open>mds_escape_profiles.ipynb\<close>: the functions
  \<^verbatim>\<open>escape_similarity\<close> and \<^verbatim>\<open>dissimilarity\<close> and the part of the loop over
  \<^verbatim>\<open>mds_config\<close> that calls them.

  Numbers are idealised: a finite \<^verbatim>\<open>float64\<close> is a real number and arithmetic on finite
  values is exact, so rounding, overflow, underflow and signed zeros are not modelled, nor
  are a metric column of integer type (whose powers wrap) and the rounding of a column of
  the pivot table whose cells are all close to integers. The special
  values that numpy produces instead of raising (\<^verbatim>\<open>nan\<close>, \<^verbatim>\<open>inf\<close>, \<^verbatim>\<open>-inf\<close>) are
  modelled, since the assertions of the code and the logarithm depend on them.
\<close>

subsection \<open>Errors and floating-point values\<close>

text \<open>The Python exceptions that the modelled code can raise.\<close>

datatype error = AssertionError | ValueError | KeyError

datatype npfloat = Fin real | PosInf | NegInf | NaN

text \<open>
  \<^verbatim>\<open>x / d\<close> on a finite numerator and a finite denominator: numpy does not raise on a zero
  denominator, it gives \<^verbatim>\<open>nan\<close> for \<^verbatim>\<open>0 / 0\<close> and an infinity otherwise.
\<close>

definition np_div :: "real \<Rightarrow> real \<Rightarrow> npfloat" where
  "np_div x d =
     (if d \<noteq> 0 then Fin (x / d)
      else if x = 0 then NaN
      else if 0 < x then PosInf else NegInf)"

text \<open>An infinity times the finite value \<open>x\<close>: the sign of \<open>x\<close> decides, and \<open>inf * 0\<close> is \<^verbatim>\<open>nan\<close>.\<close>

definition inf_times :: "real \<Rightarrow> npfloat" where
  "inf_times x = (if 0 < x then PosInf else if x < 0 then NegInf else NaN)"

fun np_mul :: "npfloat \<Rightarrow> npfloat \<Rightarrow> npfloat" where
  "np_mul (Fin x) (Fin y) = Fin (x * y)"
| "np_mul (Fin x) PosInf = inf_times x"
| "np_mul (Fin x) NegInf = inf_times (- x)"
| "np_mul PosInf (Fin y) = inf_times y"
| "np_mul NegInf (Fin y) = inf_times (- y)"
| "np_mul PosInf PosInf = PosInf"
| "np_mul PosInf NegInf = NegInf"
| "np_mul NegInf PosInf = NegInf"
| "np_mul NegInf NegInf = PosInf"
| "np_mul NaN _ = NaN"
| "np_mul _ NaN = NaN"

fun np_add :: "npfloat \<Rightarrow> npfloat \<Rightarrow> npfloat" where
  "np_add (Fin x) (Fin y) = Fin (x + y)"
| "np_add (Fin x) PosInf = PosInf"
| "np_add (Fin x) NegInf = NegInf"
| "np_add PosInf (Fin y) = PosInf"
| "np_add NegInf (Fin y) = NegInf"
| "np_add PosInf PosInf = PosInf"
| "np_add NegInf NegInf = NegInf"
| "np_add PosInf NegInf = NaN"
| "np_add NegInf PosInf = NaN"
| "np_add NaN _ = NaN"
| "np_add _ NaN = NaN"

fun np_neg :: "npfloat \<Rightarrow> npfloat" where
  "np_neg (Fin x) = Fin (- x)"
| "np_neg PosInf = NegInf"
| "np_neg NegInf = PosInf"
| "np_neg NaN = NaN"

text \<open>
  \<^verbatim>\<open>numpy.log\<close>: the natural logarithm of a positive number; \<^verbatim>\<open>-inf\<close> at zero and
  \<^verbatim>\<open>nan\<close> below zero, each with a warning and without an exception.
\<close>

fun np_log :: "npfloat \<Rightarrow> npfloat" where
  "np_log (Fin x) = (if 0 < x then Fin (ln x) else if x = 0 then NegInf else NaN)"
| "np_log PosInf = PosInf"
| "np_log NegInf = NaN"
| "np_log NaN = NaN"

text \<open>\<^verbatim>\<open>Series.sum\<close> of a column without missing values.\<close>

fun np_sum :: "npfloat list \<Rightarrow> npfloat" where
  "np_sum [] = Fin 0"
| "np_sum (x # xs) = np_add x (np_sum xs)"

text \<open>Running a list of fallible computations in order: the first exception wins.\<close>

fun collect :: "(error + 'a) list \<Rightarrow> error + 'a list" where
  "collect [] = Inr []"
| "collect (Inl e # rs) = Inl e"
| "collect (Inr x # rs) = (case collect rs of Inl e \<Rightarrow> Inl e | Inr xs \<Rightarrow> Inr (x # xs))"

subsection \<open>The dissimilarity transform\<close>

text \<open>
  \<^verbatim>\<open>
  def dissimilarity(similarity, method='one_minus'):
      if method == 'one_minus':
          return 1 - similarity
      elif method == 'minus_log':
          return -numpy.log(similarity)
      else:
          raise ValueError(f"invalid `method` {method}")
  \<close>
\<close>

definition dissimilarity :: "npfloat \<Rightarrow> string \<Rightarrow> error + npfloat" where
  "dissimilarity similarity method =
     (if method = ''one_minus'' then Inr (np_add (Fin 1) (np_neg similarity))
      else if method = ''minus_log'' then Inr (np_neg (np_log similarity))
      else Inl ValueError)"

subsection \<open>The observation table\<close>

text \<open>
  A row of the data frame restricted to the columns \<^verbatim>\<open>condition\<close>, \<^verbatim>\<open>site\<close> and
  \<^verbatim>\<open>site_metric\<close>. The metric of a raw row may be missing (\<^verbatim>\<open>NaN\<close>/null), which is
  \<open>None\<close>; the condition and the site are taken to be present.
\<close>

type_synonym raw_row = "string \<times> int \<times> real option"

type_synonym row = "string \<times> int \<times> real"

text \<open>
  \<^verbatim>\<open>DataFrame.drop_duplicates\<close> and \<^verbatim>\<open>Series.unique\<close>: the first occurrence of every
  value is kept, in the order of appearance.
\<close>

fun drop_duplicates :: "'a list \<Rightarrow> 'a list" where
  "drop_duplicates [] = []"
| "drop_duplicates (x # xs) = x # drop_duplicates (filter (\<lambda>y. y \<noteq> x) xs)"

text \<open>\<^verbatim>\<open>assert not df.isnull().any().any()\<close>, returning the rows with their values.\<close>

fun assert_notnull :: "raw_row list \<Rightarrow> error + row list" where
  "assert_notnull [] = Inr []"
| "assert_notnull ((c, s, None) # rs) = Inl AssertionError"
| "assert_notnull ((c, s, Some v) # rs) =
     (case assert_notnull rs of Inl e \<Rightarrow> Inl e | Inr rs' \<Rightarrow> Inr ((c, s, v) # rs'))"

text \<open>\<^verbatim>\<open>.assign(metric=lambda x: x[site_metric]**p)\<close>\<close>

definition assign_metric :: "nat \<Rightarrow> row list \<Rightarrow> row list" where
  "assign_metric p rows = map (\<lambda>(c, s, v). (c, s, v ^ p)) rows"

text \<open>
  \<^verbatim>\<open>.pivot_table(index='site', columns='condition', values='metric', fill_value=0)\<close>:
  the index holds the sites of the table in ascending order, there is one column for
  every condition of the table, and the cell of a condition and a site is the mean (the
  default \<^verbatim>\<open>aggfunc\<close>) of the values of the rows with that condition and site, or the
  fill value 0 when there is no such row.
\<close>

definition group_values :: "row list \<Rightarrow> string \<Rightarrow> int \<Rightarrow> real list" where
  "group_values rows c s = map (\<lambda>(c', s', v). v) (filter (\<lambda>(c', s', v). c' = c \<and> s' = s) rows)"

definition mean :: "real list \<Rightarrow> real" where
  "mean vs = sum_list vs / real (length vs)"

definition pivot_cell :: "row list \<Rightarrow> string \<Rightarrow> int \<Rightarrow> real" where
  "pivot_cell rows c s = (case group_values rows c s of [] \<Rightarrow> 0 | v # vs \<Rightarrow> mean (v # vs))"

definition pivot_index :: "row list \<Rightarrow> int list" where
  "pivot_index rows = sort (remdups (map (\<lambda>(c, s, v). s) rows))"

definition pivot_columns :: "row list \<Rightarrow> string set" where
  "pivot_columns rows = set (map (\<lambda>(c, s, v). c) rows)"

definition pivot_column :: "row list \<Rightarrow> string \<Rightarrow> real list" where
  "pivot_column rows c = map (pivot_cell rows c) (pivot_index rows)"

text \<open>\<^verbatim>\<open>numpy.linalg.norm(x, axis=0)\<close> of one column: the Euclidean norm.\<close>

definition linalg_norm :: "real list \<Rightarrow> real" where
  "linalg_norm x = sqrt (sum_list (map (\<lambda>v. v ^ 2) x))"

text \<open>\<^verbatim>\<open>.transform(lambda x: x / numpy.linalg.norm(x, axis=0))\<close>, column by column.\<close>

definition transform :: "real list \<Rightarrow> npfloat list" where
  "transform x = map (\<lambda>v. np_div v (linalg_norm x)) x"

subsection \<open>The similarity of all pairs of conditions\<close>

text \<open>
  The body of the loop of \<^verbatim>\<open>escape_similarity\<close> for one pair of conditions:
  \<^verbatim>\<open>
  similarity = (
      df
      .assign(metric=lambda x: x[site_metric]**p)
      .pivot_table(index='site', columns='condition', values='metric', fill_value=0)
      [list({cond1, cond2})]
      .transform(lambda x: x / numpy.linalg.norm(x, axis=0))
      .assign(similarity=lambda x: x[cond1] * x[cond2])
      ['similarity']
      )
  assert similarity.notnull().all()  # make sure no sites have null values
  similarities.append(similarity.sum())  # sum of similarities over sites
  \<close>
  Selecting a column that the pivot table does not have raises \<^verbatim>\<open>KeyError\<close>. The selected
  columns are transformed one by one, so the order in which the set \<^verbatim>\<open>{cond1, cond2}\<close>
  lists them has no effect, and the frame is read here by column label.
\<close>

definition pair_similarity :: "row list \<Rightarrow> nat \<Rightarrow> string \<Rightarrow> string \<Rightarrow> error + npfloat" where
  "pair_similarity df p cond1 cond2 =
     (let table = assign_metric p df in
      if cond1 \<notin> pivot_columns table \<or> cond2 \<notin> pivot_columns table then Inl KeyError
      else
        let x = (\<lambda>c. transform (pivot_column table c));
            similarity = map2 np_mul (x cond1) (x cond2)
        in if NaN \<in> set similarity then Inl AssertionError
           else Inr (np_sum similarity))"

text \<open>\<^verbatim>\<open>numpy.array(xs).reshape(r, c)\<close> for a list of \<open>r * c\<close> values, as a list of rows.\<close>

fun reshape :: "nat \<Rightarrow> nat \<Rightarrow> 'a list \<Rightarrow> 'a list list" where
  "reshape 0 c xs = []"
| "reshape (Suc r) c xs = take c xs # reshape r c (drop c xs)"

text \<open>A square data frame: the labels of its columns and index, and its rows.\<close>

record frame =
  labels :: "string list"
  cells :: "npfloat list list"

text \<open>
  \<^verbatim>\<open>
  def escape_similarity(df, p=1):
      """Compute similarity between all pairs of conditions in `df`."""
      df = df[['condition', 'site', site_metric]].drop_duplicates()
      assert not df.isnull().any().any()

      conditions = df['condition'].unique()
      similarities = []
      for cond1, cond2 in itertools.product(conditions, conditions):
          ...
      return pd.DataFrame(numpy.array(similarities).reshape(len(conditions), len(conditions)),
                          columns=conditions, index=conditions)
  \<close>
  The exponent is a natural number here (the default is 1).
\<close>

definition escape_similarity :: "raw_row list \<Rightarrow> nat \<Rightarrow> error + frame" where
  "escape_similarity df0 p =
     (case assert_notnull (drop_duplicates df0) of
        Inl e \<Rightarrow> Inl e
      | Inr df \<Rightarrow>
          (let conditions = drop_duplicates (map (\<lambda>(c, s, v). c) df)
           in (case collect (map (\<lambda>(cond1, cond2). pair_similarity df p cond1 cond2)
                                 (List.product conditions conditions)) of
                 Inl e \<Rightarrow> Inl e
               | Inr similarities \<Rightarrow>
                   Inr \<lparr>labels = conditions,
                        cells = reshape (length conditions) (length conditions) similarities\<rparr>)))"

subsection \<open>One group of the configuration\<close>

text \<open>
  The body of the loop over \<^verbatim>\<open>mds_config\<close>, up to the dissimilarities, for the
  dictionary \<^verbatim>\<open>specs['conditions']\<close> (condition to display name, as an association
  list with distinct keys) and the dissimilarity method:
  \<^verbatim>\<open>
  conditions_to_plot = list(specs['conditions'].keys())
  assert len(conditions_to_plot) == len(set(specs['conditions'].values()))
  assert set(conditions_to_plot).issubset(set(escape_fracs['condition']))
  df = (escape_fracs
        .query('condition in @conditions_to_plot')
        .assign(condition=lambda x: x['condition'].map(specs['conditions']))
        )
  similarities = escape_similarity(df)
  dissimilarities = similarities.applymap(lambda x: dissimilarity(x, method=dissimilarity_method))
  \<close>
  \<^verbatim>\<open>applymap\<close> calls the function on every cell; whether \<^verbatim>\<open>dissimilarity\<close> raises
  depends on the method only, so the order of the calls does not change the outcome.
\<close>

definition query_and_rename :: "(string \<times> string) list \<Rightarrow> raw_row list \<Rightarrow> raw_row list" where
  "query_and_rename spec_conditions escape_fracs =
     List.map_filter
       (\<lambda>(c, s, v). map_option (\<lambda>name. (name, s, v)) (map_of spec_conditions c))
       escape_fracs"

definition applymap :: "(npfloat \<Rightarrow> error + npfloat) \<Rightarrow> frame \<Rightarrow> error + frame" where
  "applymap f fr =
     (case collect (map (\<lambda>r. collect (map f r)) (cells fr)) of
        Inl e \<Rightarrow> Inl e
      | Inr rs \<Rightarrow> Inr (fr\<lparr>cells := rs\<rparr>))"

definition mds_group ::
  "raw_row list \<Rightarrow> (string \<times> string) list \<Rightarrow> string \<Rightarrow> error + frame \<times> frame" where
  "mds_group escape_fracs spec_conditions dissimilarity_method =
     (let conditions_to_plot = map fst spec_conditions in
      if length conditions_to_plot \<noteq> card (set (map snd spec_conditions)) then Inl AssertionError
      else if \<not> set conditions_to_plot \<subseteq> set (map (\<lambda>(c, s, v). c) escape_fracs)
        then Inl AssertionError
      else
        (case escape_similarity (query_and_rename spec_conditions escape_fracs) 1 of
           Inl e \<Rightarrow> Inl e
         | Inr similarities \<Rightarrow>
             (case applymap (\<lambda>x. dissimilarity x dissimilarity_method) similarities of
                Inl e \<Rightarrow> Inl e
              | Inr dissimilarities \<Rightarrow> Inr (similarities, dissimilarities))))"

subsection \<open>A table with one averaged observation per condition and site\<close>

text \<open>
  Reference tables for the treatment of repeated observations: \<open>present\<close> turns rows with
  values into raw rows, and \<open>averaged\<close> keeps, for every pair of a condition and a site in
  the order of first appearance, one row that holds the mean of the values of that pair.
\<close>

definition present :: "row list \<Rightarrow> raw_row list" where
  "present rows = map (\<lambda>(c, s, v). (c, s, Some v)) rows"

definition averaged :: "row list \<Rightarrow> row list" where
  "averaged rows =
     map (\<lambda>(c, s). (c, s, mean (group_values rows c s)))
         (drop_duplicates (map (\<lambda>(c, s, v). (c, s)) rows))"

section \<open>Properties\<close>

subsection \<open>Lists, sequencing and reshaping\<close>

lemma collect_map_Inr:
  "collect (map f xs) = Inr ys \<Longrightarrow>
     length ys = length xs \<and> (\<forall>i<length xs. f (xs ! i) = Inr (ys ! i))"
proof (induction xs arbitrary: ys)
  case Nil
  then show ?case by simp
next
  case (Cons x xs)
  then obtain y where fx: "f x = Inr y"
    by (cases "f x") simp_all
  with Cons.prems obtain ys' where ys': "collect (map f xs) = Inr ys'" "ys = y # ys'"
    by (auto split: sum.splits)
  from Cons.IH [OF ys'(1)] fx ys'(2) show ?case
    by (auto simp: nth_Cons split: nat.splits)
qed

lemma collect_Inl:
  "collect rs = Inl e \<Longrightarrow> Inl e \<in> set rs"
  by (induction rs rule: collect.induct) (auto split: sum.splits)

lemma reshape_nth:
  "length xs = r * c \<Longrightarrow> i < r \<Longrightarrow> j < c \<Longrightarrow> reshape r c xs ! i ! j = xs ! (i * c + j)"
proof (induction r arbitrary: xs i)
  case 0
  then show ?case by simp
next
  case (Suc r)
  show ?case
  proof (cases i)
    case 0
    with Suc.prems show ?thesis by simp
  next
    case (Suc i')
    with Suc.prems have "reshape r c (drop c xs) ! i' ! j = drop c xs ! (i' * c + j)"
      by (intro Suc.IH) simp_all
    with Suc Suc.prems show ?thesis
      by (simp add: add.assoc)
  qed
qed

lemma set_drop_duplicates [simp]: "set (drop_duplicates xs) = set xs"
  by (induction xs rule: drop_duplicates.induct) auto

lemma remdups_snoc: "remdups (ys @ [x]) = remdups (filter (\<lambda>y. y \<noteq> x) ys) @ [x]"
  by (induction ys) auto

lemma drop_duplicates_remdups: "drop_duplicates xs = rev (remdups (rev xs))"
  by (induction xs rule: drop_duplicates.induct) (simp_all add: remdups_snoc rev_filter)

lemma distinct_drop_duplicates [simp]: "distinct (drop_duplicates xs)"
  by (simp add: drop_duplicates_remdups)

lemma drop_duplicates_distinct: "distinct xs \<Longrightarrow> drop_duplicates xs = xs"
  by (simp add: drop_duplicates_remdups distinct_remdups_id)

lemma drop_duplicates_map_inj:
  "inj f \<Longrightarrow> drop_duplicates (map f xs) = map f (drop_duplicates xs)"
  by (induction xs rule: drop_duplicates.induct) (simp_all add: filter_map o_def inj_eq)

lemma drop_duplicates_map_drop_duplicates:
  "drop_duplicates (map f (drop_duplicates xs)) = drop_duplicates (map f xs)"
  by (simp add: drop_duplicates_remdups rev_map remdups_map_remdups)

subsection \<open>Floating-point values\<close>

lemma np_mul_commute: "np_mul a b = np_mul b a"
  by (cases a; cases b) (simp_all add: mult.commute)

lemma np_mul_NaN_right [simp]: "np_mul a NaN = NaN"
  by (cases a) simp_all

lemma map2_np_mul_commute: "map2 np_mul xs ys = map2 np_mul ys xs"
  by (induction xs ys rule: list_induct2') (simp_all add: np_mul_commute)

subsection \<open>The pivot table and the norm of a column\<close>

lemma pivot_columns_assign_metric [simp]:
  "pivot_columns (assign_metric p df) = set (map (\<lambda>(c, s, v). c) df)"
  by (simp add: pivot_columns_def assign_metric_def case_prod_beta o_def)

lemma set_pivot_index: "set (pivot_index table) = (\<lambda>(c, s, v). s) ` set table"
  by (simp add: pivot_index_def)

lemma pivot_index_nonempty:
  assumes "c \<in> pivot_columns table"
  shows "pivot_index table \<noteq> []"
proof -
  from assms have "set table \<noteq> {}" by (auto simp: pivot_columns_def)
  then have "set (pivot_index table) \<noteq> {}" by (simp add: set_pivot_index)
  then show ?thesis by auto
qed

lemma length_pivot_column [simp]:
  "length (pivot_column table c) = length (pivot_index table)"
  by (simp add: pivot_column_def)

lemma length_transform [simp]: "length (transform x) = length x"
  by (simp add: transform_def)

lemma linalg_norm_zero_iff: "linalg_norm x = 0 \<longleftrightarrow> (\<forall>v\<in>set x. v = 0)"
proof -
  have "sum_list (map (\<lambda>v. v ^ 2) x) = 0 \<longleftrightarrow> (\<forall>w\<in>set (map (\<lambda>v. v ^ 2) x). w = 0)"
    by (rule sum_list_nonneg_eq_0_iff) auto
  then show ?thesis by (simp add: linalg_norm_def)
qed

lemma linalg_norm_square: "(linalg_norm x)\<^sup>2 = sum_list (map (\<lambda>v. v ^ 2) x)"
proof -
  have "0 \<le> sum_list (map (\<lambda>v. v ^ 2) x)"
    by (rule sum_list_nonneg) auto
  then show ?thesis by (simp add: linalg_norm_def)
qed

lemma transform_zero_norm:
  "linalg_norm x = 0 \<Longrightarrow> transform x = map (\<lambda>v. NaN) x"
  by (simp add: transform_def np_div_def linalg_norm_zero_iff)

lemma transform_nonzero_norm:
  "linalg_norm x \<noteq> 0 \<Longrightarrow> transform x = map (\<lambda>v. Fin (v / linalg_norm x)) x"
  by (simp add: transform_def np_div_def)

lemma group_values_assign_metric:
  "group_values (assign_metric p rows) c s = map (\<lambda>v. v ^ p) (group_values rows c s)"
  by (induction rows) (auto simp: group_values_def assign_metric_def)

lemma pivot_cell_assign_metric:
  "pivot_cell (assign_metric p rows) c s =
     (case group_values rows c s of [] \<Rightarrow> 0 | v # vs \<Rightarrow> mean (map (\<lambda>v. v ^ p) (v # vs)))"
  by (simp add: pivot_cell_def group_values_assign_metric split: list.splits)

subsection \<open>The similarity of one pair\<close>

lemma pair_similarity_commute:
  "pair_similarity df p c1 c2 = pair_similarity df p c2 c1"
  unfolding pair_similarity_def Let_def
  by (simp add: map2_np_mul_commute [of "transform (pivot_column (assign_metric p df) c1)"] disj_commute)

lemma map2_map_same: "map2 f (map g xs) (map h xs) = map (\<lambda>v. f (g v) (h v)) xs"
  by (induction xs) simp_all

lemma np_sum_Fin: "np_sum (map (\<lambda>v. Fin (g v)) xs) = Fin (sum_list (map g xs))"
  by (induction xs) simp_all

lemma sum_list_map_divide:
  "sum_list (map (\<lambda>v. g v / d) xs) = sum_list (map g xs) / (d::real)"
  by (induction xs) (simp_all add: add_divide_distrib)

lemma self_pair:
  assumes c: "c \<in> pivot_columns (assign_metric p df)"
    and n: "linalg_norm (pivot_column (assign_metric p df) c) \<noteq> 0"
  shows "pair_similarity df p c c = Inr (Fin 1)"
proof -
  define x where "x = pivot_column (assign_metric p df) c"
  define d where "d = linalg_norm x"
  from n have d: "d \<noteq> 0" by (simp add: d_def x_def)
  have sim: "map2 np_mul (transform x) (transform x) = map (\<lambda>v. Fin (v ^ 2 / d ^ 2)) x"
    using d by (simp add: transform_nonzero_norm d_def [symmetric] map2_map_same power2_eq_square)
  have "sum_list (map (\<lambda>v. v ^ 2 / d ^ 2) x) = sum_list (map (\<lambda>v. v ^ 2) x) / d ^ 2"
    by (rule sum_list_map_divide)
  also have "\<dots> = 1"
    using d by (simp add: d_def linalg_norm_square [symmetric])
  finally have "np_sum (map (\<lambda>v. Fin (v ^ 2 / d ^ 2)) x) = Fin 1"
    by (simp add: np_sum_Fin)
  moreover have "NaN \<notin> set (map (\<lambda>v. Fin (v ^ 2 / d ^ 2)) x)"
    by auto
  ultimately show ?thesis
    using c sim unfolding pair_similarity_def Let_def x_def [symmetric]
    by simp
qed

lemma map2_Fin_div:
  "map2 np_mul (map (\<lambda>v. Fin (v / d)) xs) (map (\<lambda>v. Fin (v / e)) ys)
     = map (\<lambda>(a, b). Fin (a * b / (d * e))) (zip xs ys)"
  by (induction xs ys rule: list_induct2') simp_all

lemma pair_similarity_value:
  assumes c1: "cond1 \<in> pivot_columns (assign_metric p df)"
    and c2: "cond2 \<in> pivot_columns (assign_metric p df)"
    and x1: "pivot_column (assign_metric p df) cond1 = x1"
    and x2: "pivot_column (assign_metric p df) cond2 = x2"
    and n1: "linalg_norm x1 \<noteq> 0" and n2: "linalg_norm x2 \<noteq> 0"
  shows "pair_similarity df p cond1 cond2
    = Inr (Fin (sum_list (map2 (*) x1 x2) / (linalg_norm x1 * linalg_norm x2)))"
proof -
  define d where "d = linalg_norm x1 * linalg_norm x2"
  have sim: "map2 np_mul (transform x1) (transform x2)
      = map (\<lambda>(a, b). Fin (a * b / d)) (zip x1 x2)"
    using n1 n2 by (simp add: transform_nonzero_norm map2_Fin_div d_def)
  have "NaN \<notin> set (map (\<lambda>(a, b). Fin (a * b / d)) (zip x1 x2))"
    by auto
  moreover have "np_sum (map (\<lambda>(a, b). Fin (a * b / d)) (zip x1 x2))
      = Fin (sum_list (map2 (*) x1 x2) / d)"
    by (simp add: case_prod_unfold np_sum_Fin sum_list_map_divide)
  ultimately show ?thesis
    using c1 c2 unfolding pair_similarity_def Let_def x1 x2 sim d_def [symmetric]
    by simp
qed

lemma pair_similarity_cells:
  assumes "cond1 \<in> set (map (\<lambda>(c, s, v). c) df)"
    and "cond2 \<in> set (map (\<lambda>(c, s, v). c) df)"
    and "linalg_norm (pivot_column (assign_metric p df) cond1) \<noteq> 0"
    and "linalg_norm (pivot_column (assign_metric p df) cond2) \<noteq> 0"
  shows "pair_similarity df p cond1 cond2 =
    Inr (Fin
      (sum_list (map (\<lambda>s. pivot_cell (assign_metric p df) cond1 s *
                            pivot_cell (assign_metric p df) cond2 s)
                     (pivot_index (assign_metric p df))) /
       (sqrt (sum_list (map (\<lambda>s. (pivot_cell (assign_metric p df) cond1 s)\<^sup>2)
                            (pivot_index (assign_metric p df)))) *
        sqrt (sum_list (map (\<lambda>s. (pivot_cell (assign_metric p df) cond2 s)\<^sup>2)
                            (pivot_index (assign_metric p df)))))))"
proof -
  have "pair_similarity df p cond1 cond2
    = Inr (Fin (sum_list (map2 (*) (pivot_column (assign_metric p df) cond1)
                                   (pivot_column (assign_metric p df) cond2))
         / (linalg_norm (pivot_column (assign_metric p df) cond1) *
            linalg_norm (pivot_column (assign_metric p df) cond2))))"
    using assms by (intro pair_similarity_value) simp_all
  then show ?thesis
    by (simp add: pivot_column_def linalg_norm_def map2_map_same o_def)
qed

lemma zero_norm_pair:
  assumes c1: "cond1 \<in> pivot_columns (assign_metric p df)"
    and c2: "cond2 \<in> pivot_columns (assign_metric p df)"
    and z: "linalg_norm (pivot_column (assign_metric p df) cond1) = 0 \<or>
            linalg_norm (pivot_column (assign_metric p df) cond2) = 0"
  shows "pair_similarity df p cond1 cond2 = Inl AssertionError"
proof -
  define x1 where "x1 = transform (pivot_column (assign_metric p df) cond1)"
  define x2 where "x2 = transform (pivot_column (assign_metric p df) cond2)"
  have len: "length x1 = length x2"
    by (simp add: x1_def x2_def)
  have "length x1 = length (pivot_index (assign_metric p df))"
    by (simp add: x1_def)
  with pivot_index_nonempty [OF c1] have ne: "x1 \<noteq> []"
    by auto
  from z have "(\<forall>a\<in>set x1. a = NaN) \<or> (\<forall>b\<in>set x2. b = NaN)"
    by (auto simp: x1_def x2_def transform_zero_norm)
  then have all: "\<forall>m\<in>set (map2 np_mul x1 x2). m = NaN"
  proof
    assume l: "\<forall>a\<in>set x1. a = NaN"
    show ?thesis
    proof
      fix m assume "m \<in> set (map2 np_mul x1 x2)"
      then obtain a b where "(a, b) \<in> set (zip x1 x2)" "m = np_mul a b" by auto
      with l set_zip_leftD [of a b x1 x2] show "m = NaN" by auto
    qed
  next
    assume r: "\<forall>b\<in>set x2. b = NaN"
    show ?thesis
    proof
      fix m assume "m \<in> set (map2 np_mul x1 x2)"
      then obtain a b where "(a, b) \<in> set (zip x1 x2)" "m = np_mul a b" by auto
      with r set_zip_rightD [of a b x1 x2] show "m = NaN" by auto
    qed
  qed
  from len ne have "map2 np_mul x1 x2 \<noteq> []" by (cases x1; cases x2) simp_all
  then have "hd (map2 np_mul x1 x2) \<in> set (map2 np_mul x1 x2)" by (rule hd_in_set)
  with all have "NaN \<in> set (map2 np_mul x1 x2)" by metis
  with c1 c2 show ?thesis
    unfolding pair_similarity_def Let_def x1_def [symmetric] x2_def [symmetric] by simp
qed

lemma pair_similarity_error:
  assumes "pair_similarity df p c1 c2 = Inl e"
    and "c1 \<in> pivot_columns (assign_metric p df)" "c2 \<in> pivot_columns (assign_metric p df)"
  shows "e = AssertionError"
  using assms unfolding pair_similarity_def Let_def by (simp split: if_splits)

subsection \<open>The cells of the similarity matrix\<close>

lemma escape_similarity_cells:
  assumes "escape_similarity df0 p = Inr fr"
  obtains df where "assert_notnull (drop_duplicates df0) = Inr df"
    and "labels fr = drop_duplicates (map (\<lambda>(c, s, v). c) df)"
    and "\<And>i j. i < length (labels fr) \<Longrightarrow> j < length (labels fr) \<Longrightarrow>
           pair_similarity df p (labels fr ! i) (labels fr ! j) = Inr (cells fr ! i ! j)"
proof -
  from assms obtain df where df: "assert_notnull (drop_duplicates df0) = Inr df"
    by (auto simp: escape_similarity_def split: sum.splits)
  define conds where "conds = drop_duplicates (map (\<lambda>(c, s, v). c) df)"
  define n where "n = length conds"
  from assms df obtain sims where
    sims: "collect (map (\<lambda>(cond1, cond2). pair_similarity df p cond1 cond2)
             (List.product conds conds)) = Inr sims"
    and fr: "fr = \<lparr>labels = conds, cells = reshape n n sims\<rparr>"
    by (auto simp: escape_similarity_def Let_def conds_def n_def split: sum.splits)
  from collect_map_Inr [OF sims] have len: "length sims = n * n"
    and each: "\<And>k. k < n * n \<Longrightarrow>
       (\<lambda>(cond1, cond2). pair_similarity df p cond1 cond2) (List.product conds conds ! k)
         = Inr (sims ! k)"
    by (simp_all add: n_def)
  have "pair_similarity df p (labels fr ! i) (labels fr ! j) = Inr (cells fr ! i ! j)"
    if "i < length (labels fr)" "j < length (labels fr)" for i j
  proof -
    from that fr have ij: "i < n" "j < n" by (simp_all add: n_def)
    then have "i * n + j < i * n + n" by simp
    also have "\<dots> = Suc i * n" by simp
    also from ij have "\<dots> \<le> n * n" by (intro mult_le_mono1) simp
    finally have k: "i * n + j < n * n" .
    from ij have "n \<noteq> 0" by simp
    with ij have "(i * n + j) div n = i" "(i * n + j) mod n = j" by simp_all
    with k have "List.product conds conds ! (i * n + j) = (conds ! i, conds ! j)"
      by (simp add: product_nth n_def)
    with each [OF k] have "pair_similarity df p (conds ! i) (conds ! j) = Inr (sims ! (i * n + j))"
      by simp
    with ij len fr show ?thesis
      by (simp add: reshape_nth)
  qed
  with df fr conds_def that show thesis by simp
qed

lemma escape_similarity_error:
  assumes "assert_notnull (drop_duplicates df0) = Inr df"
    and "escape_similarity df0 p = Inl e"
  shows "e = AssertionError"
proof -
  define conds where "conds = drop_duplicates (map (\<lambda>(c, s, v). c) df)"
  from assms have "collect (map (\<lambda>(cond1, cond2). pair_similarity df p cond1 cond2)
      (List.product conds conds)) = Inl e"
    by (simp add: escape_similarity_def Let_def conds_def split: sum.splits)
  from collect_Inl [OF this] obtain a b where ab: "a \<in> set conds" "b \<in> set conds"
    and "pair_similarity df p a b = Inl e"
    by auto
  then show ?thesis
    by (intro pair_similarity_error [of df p a b e]) (simp_all add: conds_def)
qed

lemma assert_notnull_error: "assert_notnull rs = Inl e \<Longrightarrow> e = AssertionError"
  by (induction rs rule: assert_notnull.induct) (auto split: sum.splits)

lemma escape_similarity_Inl:
  assumes "escape_similarity df0 p = Inl e"
  shows "e = AssertionError"
proof (cases "assert_notnull (drop_duplicates df0)")
  case (Inl e')
  with assms have "e' = e" by (simp add: escape_similarity_def)
  with Inl show ?thesis by (simp add: assert_notnull_error)
next
  case (Inr df)
  from escape_similarity_error [OF Inr assms] show ?thesis .
qed

lemma escape_similarity_shape:
  assumes "escape_similarity df0 p = Inr fr"
  shows "\<exists>xs. length xs = length (labels fr) * length (labels fr) \<and>
           cells fr = reshape (length (labels fr)) (length (labels fr)) xs"
proof -
  from assms obtain df where df: "assert_notnull (drop_duplicates df0) = Inr df"
    by (auto simp: escape_similarity_def split: sum.splits)
  define conds where "conds = drop_duplicates (map (\<lambda>(c, s, v). c) df)"
  from assms df obtain sims where
    sims: "collect (map (\<lambda>(cond1, cond2). pair_similarity df p cond1 cond2)
             (List.product conds conds)) = Inr sims"
    and fr: "fr = \<lparr>labels = conds, cells = reshape (length conds) (length conds) sims\<rparr>"
    by (auto simp: escape_similarity_def Let_def conds_def split: sum.splits)
  from collect_map_Inr [OF sims] have "length sims = length conds * length conds"
    by simp
  with fr show ?thesis by auto
qed

lemma applymap_invalid:
  assumes f: "\<And>x. f x = Inl ValueError"
    and shape: "cells fr = reshape n n xs" "length xs = n * n"
  shows "applymap f fr = (if n = 0 then Inr fr else Inl ValueError)"
proof (cases n)
  case 0
  with shape show ?thesis by (simp add: applymap_def)
next
  case (Suc m)
  with shape(2) have "xs \<noteq> []" by auto
  then obtain y ys where "xs = y # ys" by (cases xs) auto
  with Suc shape(1) f show ?thesis
    by (simp add: applymap_def)
qed

subsection \<open>Averaged tables\<close>

lemma inj_present_row: "inj (\<lambda>(c::string, s::int, v::real). (c, s, Some v))"
  by (auto simp: inj_on_def)

lemma assert_notnull_present [simp]: "assert_notnull (present rows) = Inr rows"
  by (induction rows) (auto simp: present_def)

lemma drop_duplicates_present:
  "drop_duplicates (present rows) = present (drop_duplicates rows)"
  unfolding present_def by (rule drop_duplicates_map_inj [OF inj_present_row])

lemma filter_key_distinct:
  "distinct ks \<Longrightarrow>
     filter (\<lambda>k. fst k = c \<and> snd k = s) ks = (if (c, s) \<in> set ks then [(c, s)] else [])"
  by (induction ks) (auto simp: filter_empty_conv)

lemma group_values_empty_iff:
  "group_values rows c s = [] \<longleftrightarrow> (c, s) \<notin> set (map (\<lambda>(c, s, v). (c, s)) rows)"
  by (auto simp: group_values_def filter_empty_conv case_prod_unfold image_iff)

lemma group_values_averaged:
  "group_values (averaged rows) c s =
     (if group_values rows c s = [] then [] else [mean (group_values rows c s)])"
proof -
  define ks where "ks = drop_duplicates (map (\<lambda>(c, s, v). (c, s)) rows)"
  define g where "g = (\<lambda>k. mean (group_values rows (fst k) (snd k)))"
  have avg: "averaged rows = map (\<lambda>k. (fst k, snd k, g k)) ks"
    by (simp add: averaged_def ks_def g_def case_prod_unfold)
  have "group_values (averaged rows) c s
      = map g (filter (\<lambda>k. fst k = c \<and> snd k = s) ks)"
    by (simp add: avg group_values_def filter_map o_def case_prod_unfold)
  also have "filter (\<lambda>k. fst k = c \<and> snd k = s) ks = (if (c, s) \<in> set ks then [(c, s)] else [])"
    by (rule filter_key_distinct) (simp add: ks_def)
  also have "(c, s) \<in> set ks \<longleftrightarrow> group_values rows c s \<noteq> []"
    by (simp add: ks_def group_values_empty_iff)
  finally show ?thesis
    by (simp add: g_def)
qed

lemma mean_single [simp]: "mean [v] = v"
  by (simp add: mean_def)

lemma pivot_cell_averaged: "pivot_cell (averaged rows) c s = pivot_cell rows c s"
  by (simp add: pivot_cell_def group_values_averaged split: list.splits)

lemma assign_metric_1: "assign_metric 1 rows = rows"
  by (simp add: assign_metric_def case_prod_unfold)

lemma keys_averaged:
  "map (\<lambda>(c, s, v). (c, s)) (averaged rows) = drop_duplicates (map (\<lambda>(c, s, v). (c, s)) rows)"
  by (simp add: averaged_def o_def case_prod_beta)

lemma distinct_averaged: "distinct (averaged rows)"
proof -
  have "distinct (map (\<lambda>(c, s, v). (c, s)) (averaged rows))"
    by (simp add: keys_averaged)
  then show ?thesis by (rule distinct_map [THEN iffD1, THEN conjunct1])
qed

lemma conditions_averaged:
  "map (\<lambda>(c, s, v). c) (averaged rows) = map fst (drop_duplicates (map (\<lambda>(c, s, v). (c, s)) rows))"
  by (simp add: averaged_def o_def case_prod_beta)

lemma sites_averaged:
  "map (\<lambda>(c, s, v). s) (averaged rows) = map snd (drop_duplicates (map (\<lambda>(c, s, v). (c, s)) rows))"
  by (simp add: averaged_def o_def case_prod_beta)

lemma drop_duplicates_conditions_averaged:
  "drop_duplicates (map (\<lambda>(c, s, v). c) (averaged rows)) = drop_duplicates (map (\<lambda>(c, s, v). c) rows)"
proof -
  have "map (\<lambda>(c, s, v). c) rows = map fst (map (\<lambda>(c, s, v). (c, s)) rows)"
    by (simp add: case_prod_unfold)
  then show ?thesis
    by (simp only: conditions_averaged drop_duplicates_map_drop_duplicates)
qed

lemma pivot_index_set: "pivot_index rows = sorted_list_of_set ((\<lambda>(c, s, v). s) ` set rows)"
  by (simp add: pivot_index_def sorted_list_of_set_sort_remdups [symmetric])

lemma pivot_index_averaged: "pivot_index (averaged rows) = pivot_index rows"
proof -
  have "set (map (\<lambda>(c, s, v). s) (averaged rows)) = set (map (\<lambda>(c, s, v). s) rows)"
    by (simp only: sites_averaged set_map set_drop_duplicates) (simp add: image_image case_prod_beta)
  then show ?thesis by (simp add: pivot_index_set)
qed

lemma pivot_columns_averaged: "pivot_columns (averaged rows) = pivot_columns rows"
proof -
  have "set (map (\<lambda>(c, s, v). c) (averaged rows)) = set (map (\<lambda>(c, s, v). c) rows)"
    by (simp only: conditions_averaged set_map set_drop_duplicates) (simp add: image_image case_prod_beta)
  then show ?thesis by (simp add: pivot_columns_def)
qed

lemma pair_similarity_averaged:
  "pair_similarity (averaged rows) 1 c1 c2 = pair_similarity rows 1 c1 c2"
proof -
  have col: "pivot_column (averaged rows) c = pivot_column rows c" for c
    by (simp add: pivot_column_def pivot_index_averaged pivot_cell_averaged)
  show ?thesis
    unfolding pair_similarity_def Let_def assign_metric_1 pivot_columns_averaged col
    by (rule refl)
qed

lemma pair_similarity_averaged_fun:
  "pair_similarity (averaged rows) 1 = pair_similarity rows 1"
  by (intro ext) (rule pair_similarity_averaged)

lemma repeated_observations_averaged:
  "escape_similarity (present rows) 1
     = escape_similarity (present (averaged (drop_duplicates rows))) 1"
  by (simp only: escape_similarity_def Let_def drop_duplicates_present assert_notnull_present
      drop_duplicates_distinct [OF distinct_averaged] sum.case
      drop_duplicates_conditions_averaged pair_similarity_averaged_fun)

subsection \<open>Evaluation of examples\<close>

lemmas eval_defs = escape_similarity_def pair_similarity_def assign_metric_def pivot_columns_def
  pivot_column_def pivot_index_def pivot_cell_def group_values_def mean_def transform_def
  linalg_norm_def np_div_def

lemma example_table_similarity:
  "escape_similarity
     [(''A'', 1, Some 1), (''A'', 2, Some 1), (''B'', 1, Some 1), (''B'', 2, Some 0)] 1
   = Inr \<lparr>labels = [''A'', ''B''],
          cells = [[Fin 1, Fin (1 / sqrt 2)], [Fin (1 / sqrt 2), Fin 1]]\<rparr>"
  by (simp add: eval_defs)

lemma sqrt2_bounds: "1.41421 < sqrt 2" "sqrt 2 < 1.41422"
  by (rule real_less_rsqrt, simp add: power2_eq_square)
     (rule real_less_lsqrt, simp_all add: power2_eq_square)

lemma inv_sqrt2_bounds: "0.70710 < 1 / sqrt 2" "1 / sqrt 2 < 0.70711"
proof -
  have "1 / sqrt 2 = sqrt 2 / 2"
    by (simp add: real_div_sqrt)
  with sqrt2_bounds show "0.70710 < 1 / sqrt 2" "1 / sqrt 2 < 0.70711" by simp_all
qed

lemma exponent_column_A:
  "pivot_column (assign_metric p
      [(''A'', 1, 9/10), (''A'', 2, 1/10), (''B'', 1, 1/10), (''B'', 2, 9/10)]) ''A''
     = [(9/10) ^ p, (1/10) ^ p]"
  by (simp add: assign_metric_def pivot_column_def pivot_index_def pivot_cell_def
      group_values_def mean_def)

lemma exponent_column_B:
  "pivot_column (assign_metric p
      [(''A'', 1, 9/10), (''A'', 2, 1/10), (''B'', 1, 1/10), (''B'', 2, 9/10)]) ''B''
     = [(1/10) ^ p, (9/10) ^ p]"
  by (simp add: assign_metric_def pivot_column_def pivot_index_def pivot_cell_def
      group_values_def mean_def)

lemma power_power2: "((x::real) ^ p)\<^sup>2 = (x\<^sup>2) ^ p"
  by (simp add: power_mult [symmetric] mult.commute)

lemma exponent_value:
  "pair_similarity [(''A'', 1, 9/10), (''A'', 2, 1/10), (''B'', 1, 1/10), (''B'', 2, 9/10)]
     p ''A'' ''B'' = Inr (Fin (2 * 9 ^ p / (81 ^ p + 1)))"
proof -
  define s where "s = ((81/100) ^ p + (1/100) ^ p :: real)"
  have spos: "0 < s" by (simp add: s_def add_pos_pos)
  have nA: "linalg_norm [(9/10) ^ p, (1/10) ^ p] = sqrt s"
    by (simp add: linalg_norm_def power_power2 s_def power_divide)
  have nB: "linalg_norm [(1/10) ^ p, (9/10) ^ p] = sqrt s"
    by (simp add: linalg_norm_def power_power2 s_def power_divide add.commute)
  from spos have nz: "sqrt s \<noteq> 0" by simp
  have "pair_similarity [(''A'', 1, 9/10), (''A'', 2, 1/10), (''B'', 1, 1/10), (''B'', 2, 9/10)]
      p ''A'' ''B''
    = Inr (Fin (sum_list (map2 (*) [(9/10) ^ p, (1/10) ^ p] [(1/10) ^ p, (9/10) ^ p])
         / (linalg_norm [(9/10) ^ p, (1/10) ^ p] * linalg_norm [(1/10) ^ p, (9/10) ^ p])))"
    using nz
    by (intro pair_similarity_value [OF _ _ exponent_column_A exponent_column_B])
       (simp_all add: nA nB)
  also have "sum_list (map2 (*) [(9/10) ^ p, (1/10) ^ p] [(1/10) ^ p, (9/10) ^ p])
      = 2 * (9/100 :: real) ^ p"
    by (simp add: power_mult_distrib [symmetric])
  also have "linalg_norm [(9/10) ^ p, (1/10) ^ p] * linalg_norm [(1/10) ^ p, (9/10) ^ p] = s"
    using spos by (simp add: nA nB)
  also have "2 * (9/100 :: real) ^ p / s = 2 * 9 ^ p / (81 ^ p + 1)"
    by (simp add: s_def power_divide field_simps)
  finally show ?thesis .
qed

lemma exponent_value_decreasing: "2 * 9 ^ Suc p / (81 ^ Suc p + 1) < (2 * 9 ^ p / (81 ^ p + 1) :: real)"
proof -
  have y: "(1::real) \<le> 81 ^ p" by simp
  have x: "(0::real) < 9 ^ p" by simp
  have "9 * (Y + 1) < 81 * Y + 1" if "1 \<le> Y" for Y :: real
    using that by (simp add: algebra_simps)
  from this [OF y] have "(9::real) * (81 ^ p + 1) < 81 * 81 ^ p + 1" .
  with x have "(2 * 9 ^ p) * (9 * (81 ^ p + 1)) < (2 * 9 ^ p) * (81 * 81 ^ p + 1 :: real)"
    by (intro mult_strict_left_mono) simp_all
  moreover have "(0::real) < 81 ^ Suc p + 1" "(0::real) < 81 ^ p + 1"
    by (simp_all add: add_pos_pos)
  ultimately show ?thesis
    by (simp add: divide_less_eq less_divide_eq mult_ac pos_divide_less_eq)
qed

lemma exponent_value_bound: "0 < (2 * 9 ^ p / (81 ^ p + 1) :: real)" "(2 * 9 ^ p / (81 ^ p + 1) :: real) \<le> 2 / 9 ^ p"
proof -
  have d: "(0::real) < 81 ^ p + 1" by (simp add: add_pos_pos)
  then show "0 < (2 * 9 ^ p / (81 ^ p + 1) :: real)" by simp
  have "(81::real) ^ p = 9 ^ p * 9 ^ p" by (simp add: power_mult_distrib [symmetric])
  then have "(2 * 9 ^ p) * 9 ^ p \<le> (2::real) * (81 ^ p + 1)" by simp
  with d show "(2 * 9 ^ p / (81 ^ p + 1) :: real) \<le> 2 / 9 ^ p"
    by (simp add: field_simps)
qed

lemma disjoint_sites_example:
  "escape_similarity [(''A'', 1, Some 2), (''B'', 2, Some 3)] 1
     = Inr \<lparr>labels = [''A'', ''B''], cells = [[Fin 1, Fin 0], [Fin 0, Fin 1]]\<rparr>"
  by (simp add: eval_defs)

lemma overlapping_sites_example:
  "escape_similarity [(''A'', 1, Some 1), (''A'', 2, Some 1), (''B'', 1, Some 1)] 1
     = Inr \<lparr>labels = [''A'', ''B''],
            cells = [[Fin 1, Fin (1 / sqrt 2)], [Fin (1 / sqrt 2), Fin 1]]\<rparr>"
  by (simp add: eval_defs)

lemma power_example_raw:
  "escape_similarity (present [(''A'', 1, 0), (''A'', 1, 2), (''A'', 2, 1), (''B'', 1, 1)]) 2
     = Inr \<lparr>labels = [''A'', ''B''],
            cells = [[Fin 1, Fin (2 / sqrt 5)], [Fin (2 / sqrt 5), Fin 1]]\<rparr>"
  by (simp add: present_def eval_defs)

lemma power_example_averaged:
  "averaged (drop_duplicates [(''A'', 1, 0), (''A'', 1, 2), (''A'', 2, 1), (''B'', 1, 1)])
     = [(''A'', 1, 1), (''A'', 2, 1), (''B'', 1, 1)]"
  by (simp add: averaged_def group_values_def mean_def)

lemma power_example_single:
  "escape_similarity (present [(''A'', 1, 1), (''A'', 2, 1), (''B'', 1, 1)]) 2
     = Inr \<lparr>labels = [''A'', ''B''],
            cells = [[Fin 1, Fin (1 / sqrt 2)], [Fin (1 / sqrt 2), Fin 1]]\<rparr>"
  by (simp add: present_def eval_defs)

lemma power_example_values_differ: "2 / sqrt 5 \<noteq> 1 / sqrt 2"
proof
  assume "2 / sqrt 5 = 1 / sqrt 2"
  then have "(2 / sqrt 5)\<^sup>2 = (1 / sqrt 2)\<^sup>2" by simp
  then show False by (simp add: power_divide)
qed

section \<open>The claims\<close>

text \<open>
  The code raises Python's built-in exceptions. The failed assertions
  (\<^verbatim>\<open>AssertionError\<close>) are its form of invalid input and of undefined arithmetic, and
  \<^verbatim>\<open>ValueError\<close> is its form of an invalid configuration.
\<close>

subsection \<open>The worked example\<close>

text \<open>
  C1. For the observations \<open>(A,1) = 1\<close>, \<open>(A,2) = 1\<close>, \<open>(B,1) = 1\<close>, \<open>(B,2) = 0\<close> and the
  exponent 1, the similarity of A and B is \<open>1 / sqrt 2\<close>, which is 0.7071 to four places,
  and the transform \<^verbatim>\<open>one_minus\<close> takes it to \<open>1 - 1 / sqrt 2\<close>, which is 0.2929 to four
  places.
\<close>

theorem end_to_end_example:
  "escape_similarity
     [(''A'', 1, Some 1), (''A'', 2, Some 1), (''B'', 1, Some 1), (''B'', 2, Some 0)] 1
   = Inr \<lparr>labels = [''A'', ''B''],
          cells = [[Fin 1, Fin (1 / sqrt 2)], [Fin (1 / sqrt 2), Fin 1]]\<rparr> \<and>
   dissimilarity (Fin (1 / sqrt 2)) ''one_minus'' = Inr (Fin (1 - 1 / sqrt 2)) \<and>
   \<bar>1 / sqrt 2 - 0.7071\<bar> < 0.0001 \<and> \<bar>(1 - 1 / sqrt 2) - 0.2929\<bar> < 0.0001"
proof -
  have "dissimilarity (Fin (1 / sqrt 2)) ''one_minus'' = Inr (Fin (1 - 1 / sqrt 2))"
    by (simp add: dissimilarity_def)
  moreover from inv_sqrt2_bounds
  have "\<bar>1 / sqrt 2 - 0.7071\<bar> < 0.0001" "\<bar>(1 - 1 / sqrt 2) - 0.2929\<bar> < 0.0001"
    by (simp_all add: abs_less_iff)
  ultimately show ?thesis using example_table_similarity by simp
qed

text \<open>The same example through the loop body of a group, which uses the theorem.\<close>

theorem end_to_end_example_witness:
  "mds_group [(''A'', 1, Some 1), (''A'', 2, Some 1), (''B'', 1, Some 1), (''B'', 2, Some 0)]
     [(''A'', ''A''), (''B'', ''B'')] ''one_minus''
   = Inr (\<lparr>labels = [''A'', ''B''],
            cells = [[Fin 1, Fin (1 / sqrt 2)], [Fin (1 / sqrt 2), Fin 1]]\<rparr>,
          \<lparr>labels = [''A'', ''B''],
            cells = [[Fin 0, Fin (1 - 1 / sqrt 2)], [Fin (1 - 1 / sqrt 2), Fin 0]]\<rparr>)"
  using end_to_end_example
  by (simp add: mds_group_def Let_def query_and_rename_def List.map_filter_def applymap_def
      dissimilarity_def)

subsection \<open>The symmetry of the matrix\<close>

text \<open>
  C3. When \<^verbatim>\<open>escape_similarity\<close> returns a matrix, the cell in row \<open>i\<close> and column \<open>j\<close>
  (the pair of the conditions \<open>labels ! i\<close> and \<open>labels ! j\<close>) equals the cell in row \<open>j\<close>
  and column \<open>i\<close>.
\<close>

theorem similarity_matrix_symmetric:
  assumes "escape_similarity df0 p = Inr fr"
    and "i < length (labels fr)" and "j < length (labels fr)"
  shows "cells fr ! i ! j = cells fr ! j ! i"
proof -
  from escape_similarity_cells [OF assms(1)] obtain df where
    cell: "\<And>i j. i < length (labels fr) \<Longrightarrow> j < length (labels fr) \<Longrightarrow>
           pair_similarity df p (labels fr ! i) (labels fr ! j) = Inr (cells fr ! i ! j)"
    by blast
  from cell [OF assms(2,3)] cell [OF assms(3,2)]
    pair_similarity_commute [of df p "labels fr ! i" "labels fr ! j"]
  show ?thesis by simp
qed

text \<open>The two off-diagonal cells of the example table.\<close>

theorem similarity_matrix_symmetric_witness:
  "escape_similarity
     [(''A'', 1, Some 1), (''A'', 2, Some 1), (''B'', 1, Some 1), (''B'', 2, Some 0)] 1
   = Inr \<lparr>labels = [''A'', ''B''],
          cells = [[Fin 1, Fin (1 / sqrt 2)], [Fin (1 / sqrt 2), Fin 1]]\<rparr> \<and>
   (0::nat) < length [''A'', ''B''] \<and> (1::nat) < length [''A'', ''B''] \<and>
   [[Fin 1, Fin (1 / sqrt 2)], [Fin (1 / sqrt 2), Fin 1]] ! 0 ! 1
     = [[Fin 1, Fin (1 / sqrt 2)], [Fin (1 / sqrt 2), Fin 1]] ! 1 ! 0"
  using similarity_matrix_symmetric [OF example_table_similarity, of 0 1] example_table_similarity
  by simp

subsection \<open>Sites without an observation\<close>

text \<open>
  C4. The column of a condition in the pivot table has one cell for every site of the whole
  table, and the cell of a site at which the condition has no observation is 0. The
  columns are normalised after that: for two conditions with columns of non-zero norm the
  similarity is the sum, over all sites of the table, of the products of their cells,
  divided by the norms of the two whole columns, so a site observed for one condition only
  is not left out of the norm. For A observed at site 1 only (value 2) and B observed at
  site 2 only (value 3) the similarity of A and B is 0; for A observed at the sites 1 and 2
  and B observed at site 1 only (all values 1) it is \<open>1 / sqrt 2\<close>, not 1.
\<close>

theorem missing_sites_filled_with_zero:
  assumes "i < length (pivot_index (assign_metric p df))"
    and "group_values df c (pivot_index (assign_metric p df) ! i) = []"
  shows "pivot_column (assign_metric p df) c ! i = 0 \<and>
    length (pivot_column (assign_metric p df) c) = length (pivot_index (assign_metric p df)) \<and>
    set (pivot_index (assign_metric p df)) = (\<lambda>(c, s, v). s) ` set df \<and>
    (c \<in> set (map (\<lambda>(c, s, v). c) df) \<and> c' \<in> set (map (\<lambda>(c, s, v). c) df) \<and>
     linalg_norm (pivot_column (assign_metric p df) c) \<noteq> 0 \<and>
     linalg_norm (pivot_column (assign_metric p df) c') \<noteq> 0 \<longrightarrow>
     pair_similarity df p c c' =
       Inr (Fin
         (sum_list (map (\<lambda>s. pivot_cell (assign_metric p df) c s *
                               pivot_cell (assign_metric p df) c' s)
                        (pivot_index (assign_metric p df))) /
          (sqrt (sum_list (map (\<lambda>s. (pivot_cell (assign_metric p df) c s)\<^sup>2)
                               (pivot_index (assign_metric p df)))) *
           sqrt (sum_list (map (\<lambda>s. (pivot_cell (assign_metric p df) c' s)\<^sup>2)
                               (pivot_index (assign_metric p df)))))))) \<and>
    escape_similarity [(''A'', 1, Some 2), (''B'', 2, Some 3)] 1
      = Inr \<lparr>labels = [''A'', ''B''], cells = [[Fin 1, Fin 0], [Fin 0, Fin 1]]\<rparr> \<and>
    escape_similarity [(''A'', 1, Some 1), (''A'', 2, Some 1), (''B'', 1, Some 1)] 1
      = Inr \<lparr>labels = [''A'', ''B''],
             cells = [[Fin 1, Fin (1 / sqrt 2)], [Fin (1 / sqrt 2), Fin 1]]\<rparr>"
proof -
  from assms have "pivot_column (assign_metric p df) c ! i = 0"
    by (simp add: pivot_column_def pivot_cell_assign_metric)
  moreover have "set (pivot_index (assign_metric p df)) = (\<lambda>(c, s, v). s) ` set df"
    by (simp add: set_pivot_index assign_metric_def image_image case_prod_unfold)
  ultimately show ?thesis
    using disjoint_sites_example overlapping_sites_example
      pair_similarity_cells [of c df c' p]
    by simp
qed

text \<open>
  The table with A at the sites 1 and 2 and B at site 1 only: the column of B is \<open>[1, 0]\<close>,
  the column of A is \<open>[1, 1]\<close> with the norm \<open>sqrt 2\<close>.
\<close>

theorem missing_sites_filled_with_zero_witness:
  "(1::nat) < length (pivot_index (assign_metric 1 [(''A'', 1, 1), (''A'', 2, 1), (''B'', 1, 1)])) \<and>
   pivot_index (assign_metric 1 [(''A'', 1, 1), (''A'', 2, 1), (''B'', 1, 1)]) = [1, 2] \<and>
   group_values [(''A'', 1, 1), (''A'', 2, 1), (''B'', 1, 1)] ''B'' 2 = [] \<and>
   pivot_column (assign_metric 1 [(''A'', 1, 1), (''A'', 2, 1), (''B'', 1, 1)]) ''B'' = [1, 0] \<and>
   pivot_column (assign_metric 1 [(''A'', 1, 1), (''A'', 2, 1), (''B'', 1, 1)]) ''A'' = [1, 1] \<and>
   ''B'' \<in> set (map (\<lambda>(c, s, v). c) [(''A'', 1::int, 1::real), (''A'', 2, 1), (''B'', 1, 1)]) \<and>
   ''A'' \<in> set (map (\<lambda>(c, s, v). c) [(''A'', 1::int, 1::real), (''A'', 2, 1), (''B'', 1, 1)]) \<and>
   linalg_norm [1, 0] = 1 \<and> linalg_norm [1, 1] = sqrt 2 \<and>
   pair_similarity [(''A'', 1, 1), (''A'', 2, 1), (''B'', 1, 1)] 1 ''B'' ''A''
     = Inr (Fin (1 / sqrt 2))"
proof -
  have i: "pivot_index (assign_metric 1 [(''A'', 1, 1), (''A'', 2, 1), (''B'', 1, 1)]) = [1, 2]"
    by (simp add: eval_defs)
  have g: "group_values [(''A'', 1, 1), (''A'', 2, 1), (''B'', 1, 1)] ''B'' 2 = []"
    by (simp add: group_values_def)
  have b: "pivot_column (assign_metric 1 [(''A'', 1, 1), (''A'', 2, 1), (''B'', 1, 1)]) ''B''
      = [1, 0]"
    by (simp add: eval_defs)
  have a: "pivot_column (assign_metric 1 [(''A'', 1, 1), (''A'', 2, 1), (''B'', 1, 1)]) ''A''
      = [1, 1]"
    by (simp add: eval_defs)
  have n: "linalg_norm [1, 0] = 1" "linalg_norm [1, 1] = sqrt 2"
    by (simp_all add: linalg_norm_def)
  from missing_sites_filled_with_zero
    [of 1 1 "[(''A'', 1, 1), (''A'', 2, 1), (''B'', 1, 1)]" "''B''" "''A''"] i g
  show ?thesis
    unfolding a b by (simp add: eval_defs)
qed

subsection \<open>The dissimilarity transform\<close>

text \<open>
  C5 (as the code has it). With the method \<^verbatim>\<open>minus_log\<close> the transform never raises: for a
  similarity \<open>s > 0\<close> it returns \<open>- ln s\<close>, so the dissimilarity of 1 is 0; for \<open>s = 0\<close> it
  returns \<^verbatim>\<open>inf\<close> and for \<open>s < 0\<close> it returns \<^verbatim>\<open>nan\<close>, as \<^verbatim>\<open>numpy.log\<close> does.
\<close>

theorem dissimilarity_minus_log:
  "dissimilarity (Fin s) ''minus_log'' =
     Inr (if 0 < s then Fin (- ln s) else if s = 0 then PosInf else NaN) \<and>
   dissimilarity (Fin 1) ''minus_log'' = Inr (Fin 0)"
  by (simp add: dissimilarity_def)

text \<open>
  C5 (as stated) fails: at the similarities 0 and \<open>-1\<close> the transform with
  \<^verbatim>\<open>minus_log\<close> returns a value, \<^verbatim>\<open>inf\<close> and \<^verbatim>\<open>nan\<close>, and raises nothing.
\<close>

theorem dissimilarity_minus_log_nonpositive_counterexample:
  "dissimilarity (Fin 0) ''minus_log'' = Inr PosInf \<and>
   dissimilarity (Fin (- 1)) ''minus_log'' = Inr NaN"
  by (simp add: dissimilarity_def)

text \<open>
  C6 (as the code has it). For a method name other than \<^verbatim>\<open>one_minus\<close> and
  \<^verbatim>\<open>minus_log\<close> the transform raises \<^verbatim>\<open>ValueError\<close> at every similarity. In the loop
  body of a group the exception arises exactly when both assertions pass and
  \<^verbatim>\<open>escape_similarity\<close> has returned a matrix that is not empty: the method is looked at
  only when the transform is applied to the cells of the computed matrix.
\<close>

theorem invalid_method_fails_after_similarity:
  assumes "method \<noteq> ''one_minus''" and "method \<noteq> ''minus_log''"
  shows "dissimilarity s method = Inl ValueError \<and>
    (mds_group escape_fracs spec_conditions method = Inl ValueError \<longleftrightarrow>
       length (map fst spec_conditions) = card (set (map snd spec_conditions)) \<and>
       set (map fst spec_conditions) \<subseteq> set (map (\<lambda>(c, s, v). c) escape_fracs) \<and>
       (\<exists>similarities.
          escape_similarity (query_and_rename spec_conditions escape_fracs) 1 = Inr similarities \<and>
          labels similarities \<noteq> []))"
proof
  from assms show d: "dissimilarity s method = Inl ValueError"
    by (simp add: dissimilarity_def)
  from assms have f: "\<And>x. dissimilarity x method = Inl ValueError"
    by (simp add: dissimilarity_def)
  show "mds_group escape_fracs spec_conditions method = Inl ValueError \<longleftrightarrow>
       length (map fst spec_conditions) = card (set (map snd spec_conditions)) \<and>
       set (map fst spec_conditions) \<subseteq> set (map (\<lambda>(c, s, v). c) escape_fracs) \<and>
       (\<exists>similarities.
          escape_similarity (query_and_rename spec_conditions escape_fracs) 1 = Inr similarities \<and>
          labels similarities \<noteq> [])"
  proof (cases "escape_similarity (query_and_rename spec_conditions escape_fracs) 1")
    case (Inl e)
    with escape_similarity_Inl [OF Inl] show ?thesis
      by (simp add: mds_group_def Let_def)
  next
    case (Inr fr)
    from escape_similarity_shape [OF Inr] obtain xs where
      "length xs = length (labels fr) * length (labels fr)"
      "cells fr = reshape (length (labels fr)) (length (labels fr)) xs"
      by blast
    from applymap_invalid [of "\<lambda>x. dissimilarity x method", OF f this(2,1)]
    have "applymap (\<lambda>x. dissimilarity x method) fr
            = (if labels fr = [] then Inr fr else Inl ValueError)"
      by simp
    with Inr show ?thesis
      by (simp add: mds_group_def Let_def)
  qed
qed

text \<open>A table with the single condition A and an unknown method.\<close>

theorem invalid_method_fails_after_similarity_witness:
  "''bogus'' \<noteq> ''one_minus'' \<and> ''bogus'' \<noteq> ''minus_log'' \<and>
   dissimilarity (Fin 1) ''bogus'' = Inl ValueError \<and>
   escape_similarity (query_and_rename [(''A'', ''A'')] [(''A'', 1, Some 1)]) 1
     = Inr \<lparr>labels = [''A''], cells = [[Fin 1]]\<rparr> \<and>
   mds_group [(''A'', 1, Some 1)] [(''A'', ''A'')] ''bogus'' = Inl ValueError"
proof -
  have e: "escape_similarity (query_and_rename [(''A'', ''A'')] [(''A'', 1, Some 1)]) 1
     = Inr \<lparr>labels = [''A''], cells = [[Fin 1]]\<rparr>"
    by (simp add: query_and_rename_def List.map_filter_def eval_defs)
  from invalid_method_fails_after_similarity
    [of "''bogus''" "Fin 1" "[(''A'', 1, Some 1)]" "[(''A'', ''A'')]"] e
  show ?thesis by simp
qed

text \<open>
  C6 (as stated) fails: with an unknown method and a table whose only condition has an
  all-zero profile, the group fails in the computation of the similarity matrix, with the
  exception of its assertion, and the method is never looked at.
\<close>

theorem invalid_method_after_failed_similarity_counterexample:
  "mds_group [(''A'', 1, Some 0)] [(''A'', ''A'')] ''bogus'' = Inl AssertionError"
  by (simp add: mds_group_def query_and_rename_def List.map_filter_def eval_defs)

subsection \<open>The group loop\<close>

text \<open>
  C7. When a condition requested by the configuration of a group does not occur in the
  observation table, the group fails with the exception of the assertion
  (\<^verbatim>\<open>AssertionError\<close>, the code's form of an invalid input); the condition is neither
  skipped nor given a row of zeros.
\<close>

theorem absent_condition_fails:
  assumes "c \<in> set (map fst spec_conditions)"
    and "c \<notin> set (map (\<lambda>(c, s, v). c) escape_fracs)"
  shows "mds_group escape_fracs spec_conditions method = Inl AssertionError"
  using assms unfolding mds_group_def Let_def by auto

theorem absent_condition_fails_witness:
  "''B'' \<in> set (map fst [(''A'', ''A''), (''B'', ''B'')]) \<and>
   ''B'' \<notin> set (map (\<lambda>(c, s, v). c) [(''A'', 1::int, Some (1::real))]) \<and>
   mds_group [(''A'', 1, Some 1)] [(''A'', ''A''), (''B'', ''B'')] ''one_minus''
     = Inl AssertionError"
  using absent_condition_fails
    [of "''B''" "[(''A'', ''A''), (''B'', ''B'')]" "[(''A'', 1, Some 1)]" "''one_minus''"]
  by simp

subsection \<open>A profile of norm zero\<close>

text \<open>
  C8. When the column of one of the two conditions of a pair has the Euclidean norm 0
  (every cell of the zero-filled column of powers is 0), the division by the norm gives
  \<^verbatim>\<open>nan\<close> in every cell, the assertion on the products fails, and the pair has no
  similarity value: the computation of the pair, and with it \<^verbatim>\<open>escape_similarity\<close>,
  ends with the exception of the assertion.
\<close>

theorem zero_norm_fails:
  assumes "assert_notnull (drop_duplicates df0) = Inr df"
    and "cond1 \<in> set (map (\<lambda>(c, s, v). c) df)"
    and "cond2 \<in> set (map (\<lambda>(c, s, v). c) df)"
    and "linalg_norm (pivot_column (assign_metric p df) cond1) = 0 \<or>
         linalg_norm (pivot_column (assign_metric p df) cond2) = 0"
  shows "pair_similarity df p cond1 cond2 = Inl AssertionError \<and>
         escape_similarity df0 p = Inl AssertionError"
proof
  from assms(2-4) show pair: "pair_similarity df p cond1 cond2 = Inl AssertionError"
    by (intro zero_norm_pair) simp_all
  show "escape_similarity df0 p = Inl AssertionError"
  proof (cases "escape_similarity df0 p")
    case (Inl e)
    with escape_similarity_error [OF assms(1)] show ?thesis by simp
  next
    case (Inr fr)
    from escape_similarity_cells [OF Inr] obtain df' where
      df': "assert_notnull (drop_duplicates df0) = Inr df'"
      and lab: "labels fr = drop_duplicates (map (\<lambda>(c, s, v). c) df')"
      and cell: "\<And>i j. i < length (labels fr) \<Longrightarrow> j < length (labels fr) \<Longrightarrow>
           pair_similarity df' p (labels fr ! i) (labels fr ! j) = Inr (cells fr ! i ! j)"
      by blast
    from df' assms(1) have eq: "df' = df" by simp
    from assms(2,3) lab eq have "cond1 \<in> set (labels fr)" "cond2 \<in> set (labels fr)"
      by simp_all
    then obtain i j where "i < length (labels fr)" "labels fr ! i = cond1"
      "j < length (labels fr)" "labels fr ! j = cond2"
      by (auto simp: in_set_conv_nth)
    with cell [of i j] eq pair show ?thesis by simp
  qed
qed

text \<open>The condition A with the single value 0, paired with B.\<close>

theorem zero_norm_fails_witness:
  "assert_notnull (drop_duplicates [(''A'', 1, Some 0), (''B'', 1, Some 1)])
     = Inr [(''A'', 1, 0), (''B'', 1, 1)] \<and>
   ''B'' \<in> set (map (\<lambda>(c, s, v). c) [(''A'', 1::int, 0::real), (''B'', 1, 1)]) \<and>
   ''A'' \<in> set (map (\<lambda>(c, s, v). c) [(''A'', 1::int, 0::real), (''B'', 1, 1)]) \<and>
   linalg_norm (pivot_column (assign_metric 1 [(''A'', 1, 0), (''B'', 1, 1)]) ''A'') = 0 \<and>
   pair_similarity [(''A'', 1, 0), (''B'', 1, 1)] 1 ''B'' ''A'' = Inl AssertionError \<and>
   escape_similarity [(''A'', 1, Some 0), (''B'', 1, Some 1)] 1 = Inl AssertionError"
proof -
  have a: "assert_notnull (drop_duplicates [(''A'', 1, Some 0), (''B'', 1, Some 1)])
     = Inr [(''A'', 1, 0), (''B'', 1, 1)]"
    by simp
  have n: "linalg_norm (pivot_column (assign_metric 1 [(''A'', 1, 0), (''B'', 1, 1)]) ''A'') = 0"
    by (simp add: eval_defs)
  from zero_norm_fails [OF a, of "''B''" "''A''" 1] a n show ?thesis
    by simp
qed

subsection \<open>The exponent\<close>

text \<open>
  C9. For the profiles \<open>[0.9, 0.1]\<close> of A and \<open>[0.1, 0.9]\<close> of B over the sites 1 and 2, the
  similarity of A and B for the exponent \<open>p\<close> is \<open>2 * 9 ^ p / (81 ^ p + 1)\<close>. It decreases
  strictly with every step of \<open>p\<close>, is positive and at most \<open>2 / 9 ^ p\<close>, so it approaches
  0; it is \<open>9/41\<close> for \<open>p = 1\<close>, \<open>81/3281\<close> for \<open>p = 2\<close> and \<open>729/265721\<close> for \<open>p = 3\<close>.
\<close>

theorem exponent_example:
  "pair_similarity [(''A'', 1, 9/10), (''A'', 2, 1/10), (''B'', 1, 1/10), (''B'', 2, 9/10)]
      p ''A'' ''B'' = Inr (Fin (2 * 9 ^ p / (81 ^ p + 1))) \<and>
   2 * 9 ^ Suc p / (81 ^ Suc p + 1) < (2 * 9 ^ p / (81 ^ p + 1) :: real) \<and>
   0 < (2 * 9 ^ p / (81 ^ p + 1) :: real) \<and>
   (2 * 9 ^ p / (81 ^ p + 1) :: real) \<le> 2 / 9 ^ p \<and>
   pair_similarity [(''A'', 1, 9/10), (''A'', 2, 1/10), (''B'', 1, 1/10), (''B'', 2, 9/10)]
      1 ''A'' ''B'' = Inr (Fin (9 / 41)) \<and>
   pair_similarity [(''A'', 1, 9/10), (''A'', 2, 1/10), (''B'', 1, 1/10), (''B'', 2, 9/10)]
      2 ''A'' ''B'' = Inr (Fin (81 / 3281)) \<and>
   pair_similarity [(''A'', 1, 9/10), (''A'', 2, 1/10), (''B'', 1, 1/10), (''B'', 2, 9/10)]
      3 ''A'' ''B'' = Inr (Fin (729 / 265721)) \<and>
   (9 / 41 :: real) > 81 / 3281 \<and> (81 / 3281 :: real) > 729 / 265721 \<and>
   (729 / 265721 :: real) > 0 \<and> (729 / 265721 :: real) < 3 / 1000"
  using exponent_value [of p] exponent_value [of 1] exponent_value [of 2] exponent_value [of 3]
    exponent_value_decreasing [of p] exponent_value_bound [of p]
  by simp

text \<open>The matrix of that table for \<open>p = 2\<close>, with the value of the theorem off the diagonal.\<close>

theorem exponent_example_witness:
  "escape_similarity
     [(''A'', 1, Some (9/10)), (''A'', 2, Some (1/10)), (''B'', 1, Some (1/10)),
      (''B'', 2, Some (9/10))] 2
   = Inr \<lparr>labels = [''A'', ''B''],
          cells = [[Fin 1, Fin (81 / 3281)], [Fin (81 / 3281), Fin 1]]\<rparr>"
  using exponent_example [of 2]
  by (simp add: eval_defs power_divide)

subsection \<open>Repeated observations\<close>




end
